theory Spec2Isabelle
  imports Complex_Main "HOL-Library.Word" "HOL-Library.Log_Nat"
begin

section \<open>JavaScript values used by the server code\<close>

text \<open>
  A JavaScript string is a sequence of 16-bit code units, and \<open>s.length\<close> counts
  them. String literals of the source are ASCII; \<open>js\<close> gives their code units.
\<close>

type_synonym code_unit = "16 word"
type_synonym js_string = "code_unit list"

definition js :: "string \<Rightarrow> js_string" where
  "js s = map of_char s"

datatype js_error = TypeError

text \<open>
  The values that reach the credential utilities where a string is documented. The
  register handler passes \<open>req.body.password\<close> on as the JSON parser left it, so the
  value is \<open>undefined\<close>, \<open>null\<close>, a string, or any other value: a number, a
  boolean, an array, an object. Such a value is described by what
  \<open>validatePasswordStrength\<close> observes of it: whether it is truthy, what
  \<open>v.length < 8\<close> evaluates to, and what ToString makes of it. The comparison and
  the conversion call the value's own conversion methods and throw a TypeError when none
  of them is callable, as for the parsed object \<open>{"toString": 1}\<close>.
\<close>

datatype js_value =
    Undefined
  | Null
  | Str js_string
  | Other (other_truthy: bool) (other_length_below_8: "js_error + bool")
      (other_string: "js_error + js_string")

text \<open>\<open>!v\<close> is true for \<open>undefined\<close>, \<open>null\<close> and the empty string.\<close>

fun truthy :: "js_value \<Rightarrow> bool" where
  "truthy Undefined = False"
| "truthy Null = False"
| "truthy (Str s) = (s \<noteq> [])"
| "truthy (Other t l s) = t"

text \<open>\<open>v.length < 8\<close>; reading \<open>v.length\<close> throws a TypeError on \<open>undefined\<close> and \<open>null\<close>.\<close>

fun length_below_8 :: "js_value \<Rightarrow> js_error + bool" where
  "length_below_8 Undefined = Inl TypeError"
| "length_below_8 Null = Inl TypeError"
| "length_below_8 (Str s) = Inr (length s < 8)"
| "length_below_8 (Other t l s) = l"

text \<open>ToString, which \<open>RegExp.prototype.test\<close> applies to its argument.\<close>

fun to_string :: "js_value \<Rightarrow> js_error + js_string" where
  "to_string Undefined = Inr (js ''undefined'')"
| "to_string Null = Inr (js ''null'')"
| "to_string (Str s) = Inr s"
| "to_string (Other t l s) = s"

section \<open>Password strength (server/src/utils/auth.js)\<close>

text \<open>
  The four patterns have the shape \<open>/(?=.*[class])/\<close>, without flags. The dot
  matches every code unit except the line terminators; \<open>test\<close> tries the
  lookahead at every start index from 0 to the length of the input.
\<close>

definition line_terminator :: "code_unit \<Rightarrow> bool" where
  "line_terminator c = (c = 0x0A \<or> c = 0x0D \<or> c = 0x2028 \<or> c = 0x2029)"

text \<open>\<open>.*[class]\<close> matched at the start of the input.\<close>

fun dot_star_class :: "(code_unit \<Rightarrow> bool) \<Rightarrow> js_string \<Rightarrow> bool" where
  "dot_star_class cls [] = False"
| "dot_star_class cls (c # cs) = (cls c \<or> (\<not> line_terminator c \<and> dot_star_class cls cs))"

fun lookahead_test :: "(code_unit \<Rightarrow> bool) \<Rightarrow> js_string \<Rightarrow> bool" where
  "lookahead_test cls [] = dot_star_class cls []"
| "lookahead_test cls (c # cs) = (dot_star_class cls (c # cs) \<or> lookahead_test cls cs)"

text \<open>\<open>pattern.test(v)\<close>: the conversion of \<open>v\<close>, then the match.\<close>

definition regex_test :: "(code_unit \<Rightarrow> bool) \<Rightarrow> js_value \<Rightarrow> js_error + bool" where
  "regex_test cls v = (case to_string v of Inl e \<Rightarrow> Inl e | Inr s \<Rightarrow> Inr (lookahead_test cls s))"

definition lowercase :: "code_unit \<Rightarrow> bool" where
  "lowercase c = (0x61 \<le> c \<and> c \<le> 0x7A)"

definition uppercase :: "code_unit \<Rightarrow> bool" where
  "uppercase c = (0x41 \<le> c \<and> c \<le> 0x5A)"

definition digit :: "code_unit \<Rightarrow> bool" where
  "digit c = (0x30 \<le> c \<and> c \<le> 0x39)"

definition special :: "code_unit \<Rightarrow> bool" where
  "special c = (c \<in> set (js ''@$!%*?&''))"

record strength_result =
  isValid :: bool
  errors :: "js_string list"

text \<open>\<open>!password || password.length < 8\<close>: the right operand is read only when the left is false.\<close>

definition too_short :: "js_value \<Rightarrow> js_error + bool" where
  "too_short password =
     (if \<not> truthy password then Inr True else length_below_8 password)"

definition push_if :: "bool \<Rightarrow> js_string \<Rightarrow> js_string list \<Rightarrow> js_string list" where
  "push_if b m es = (if b then es @ [m] else es)"

text \<open>The five checks run in order; a throw in one of them leaves the function.\<close>

definition validatePasswordStrength :: "js_value \<Rightarrow> js_error + strength_result" where
  "validatePasswordStrength password =
     (case too_short password of
        Inl e \<Rightarrow> Inl e
      | Inr short \<Rightarrow>
     (let es = push_if short (js ''Password must be at least 8 characters long'') [] in
      case regex_test lowercase password of
        Inl e \<Rightarrow> Inl e
      | Inr found \<Rightarrow>
     (let es = push_if (\<not> found) (js ''Password must contain at least one lowercase letter'') es in
      case regex_test uppercase password of
        Inl e \<Rightarrow> Inl e
      | Inr found \<Rightarrow>
     (let es = push_if (\<not> found) (js ''Password must contain at least one uppercase letter'') es in
      case regex_test digit password of
        Inl e \<Rightarrow> Inl e
      | Inr found \<Rightarrow>
     (let es = push_if (\<not> found) (js ''Password must contain at least one number'') es in
      case regex_test special password of
        Inl e \<Rightarrow> Inl e
      | Inr found \<Rightarrow>
     (let es = push_if (\<not> found)
                 (js ''Password must contain at least one special character (@$!%*?&)'') es
      in Inr \<lparr>isValid = (length es = 0), errors = es\<rparr>))))))"

section \<open>Role check (server/src/utils/auth.js and server/src/middleware/auth.js)\<close>

type_synonym objectId = nat

text \<open>
  The principal: \<open>_id\<close>, \<open>username\<close>, \<open>email\<close> and the \<open>role\<close> attribute, which an
  object handed to \<open>hasRole\<close> may lack.
\<close>

record user =
  uid :: objectId
  username :: js_string
  email :: js_string
  role :: "js_string option"

datatype required_roles = One js_string | Many "js_string list"

text \<open>Reading \<open>user.role\<close> throws a TypeError when \<open>user\<close> is \<open>null\<close> or \<open>undefined\<close>.\<close>

fun get_role :: "user option \<Rightarrow> js_error + js_string option" where
  "get_role None = Inl TypeError"
| "get_role (Some u) = Inr (role u)"

text \<open>\<open>Array.isArray(requiredRoles) ? requiredRoles : [requiredRoles]\<close>\<close>

fun roles_of :: "required_roles \<Rightarrow> js_string list" where
  "roles_of (Many rs) = rs"
| "roles_of (One r) = [r]"

text \<open>
  Both files define \<open>hasRole\<close> with the same body. \<open>!user.role\<close> holds for a
  missing attribute and for the empty string.
\<close>

definition hasRole :: "user option \<Rightarrow> required_roles \<Rightarrow> js_error + bool" where
  "hasRole usr requiredRoles =
     (if usr = None then Inr False
      else case get_role usr of
             Inl e \<Rightarrow> Inl e
           | Inr None \<Rightarrow> Inr False
           | Inr (Some r) \<Rightarrow>
               if r = [] then Inr False
               else Inr (r \<in> set (roles_of requiredRoles)))"

section \<open>Tokens (server/src/utils/auth.js, server/src/middleware/auth.js)\<close>

text \<open>
  \<open>jwt.sign\<close> and \<open>jwt.verify\<close> belong to the jsonwebtoken library, taken here as
  its documentation describes them. A token carries a payload, the registered claims
  and a signature, the keyed hash of the rest under the secret; \<open>mac\<close>, the hash, is a
  parameter. \<open>sign\<close> stamps \<open>iat\<close> with the clock in seconds and \<open>exp\<close> with
  \<open>iat\<close> plus the lifetime. \<open>verify\<close> refuses a string that is no token, then a
  signature that is not the hash of the token's contents, then a token whose \<open>exp\<close>
  the clock has reached.
\<close>

text \<open>A date is a number of milliseconds since the epoch.\<close>

type_synonym date = nat

record 'p claims =
  c_payload :: 'p
  c_iat :: nat
  c_exp :: "nat option"
  c_iss :: "js_string option"
  c_aud :: "js_string option"

datatype 'p token = Malformed | Signed "'p claims" js_string

type_synonym 'p mac = "js_string \<Rightarrow> 'p claims \<Rightarrow> js_string"

datatype jwt_error = JsonWebTokenError | TokenExpiredError

definition jwt_sign :: "'p mac \<Rightarrow> 'p \<Rightarrow> js_string \<Rightarrow> nat \<Rightarrow> js_string \<Rightarrow> js_string \<Rightarrow> date \<Rightarrow> 'p token" where
  "jwt_sign mac p secret expiresIn issuer audience now =
     (let c = \<lparr>c_payload = p, c_iat = now div 1000, c_exp = Some (now div 1000 + expiresIn),
               c_iss = Some issuer, c_aud = Some audience\<rparr>
      in Signed c (mac secret c))"

definition jwt_verify :: "'p mac \<Rightarrow> 'p token \<Rightarrow> js_string \<Rightarrow> date \<Rightarrow> jwt_error + 'p claims" where
  "jwt_verify mac tok secret now =
     (case tok of
        Malformed \<Rightarrow> Inl JsonWebTokenError
      | Signed c s \<Rightarrow>
          if s \<noteq> mac secret c then Inl JsonWebTokenError
          else (case c_exp c of
                  None \<Rightarrow> Inr c
                | Some e \<Rightarrow> if e \<le> now div 1000 then Inl TokenExpiredError else Inr c))"

text \<open>The payload \<open>generateToken\<close> builds from the user.\<close>

record user_payload =
  p_id :: objectId
  p_username :: js_string
  p_email :: js_string
  p_role :: "js_string option"

text \<open>The two errors the functions throw: \<open>'Failed to generate authentication token'\<close> and
  \<open>'Invalid or expired token'\<close>.\<close>

datatype auth_error = TokenGenerationFailed | InvalidOrExpiredToken

text \<open>
  \<open>generateToken\<close>. \<open>JWT_SECRET\<close> and \<open>JWT_EXPIRES_IN\<close> come from the environment;
  the lifetime is given in seconds (\<open>'7d'\<close>, the default, is 604800). Reading
  \<open>user._id\<close> on a missing user throws inside the \<open>try\<close>, and the \<open>catch\<close> throws
  the function's own error.
\<close>

definition generateToken :: "user_payload mac \<Rightarrow> js_string \<Rightarrow> nat \<Rightarrow> date \<Rightarrow> user option
    \<Rightarrow> auth_error + user_payload token" where
  "generateToken mac JWT_SECRET JWT_EXPIRES_IN now usr =
     (case usr of
        None \<Rightarrow> Inl TokenGenerationFailed
      | Some u \<Rightarrow>
          Inr (jwt_sign mac
                 \<lparr>p_id = uid u, p_username = username u, p_email = email u, p_role = role u\<rparr>
                 JWT_SECRET JWT_EXPIRES_IN (js ''mern-testing-app'') (js ''mern-testing-users'') now))"

text \<open>\<open>verifyToken\<close>, the same in both files: whatever \<open>jwt.verify\<close> throws becomes the
  function's own error.\<close>

definition verifyToken :: "'p mac \<Rightarrow> js_string \<Rightarrow> date \<Rightarrow> 'p token \<Rightarrow> auth_error + 'p claims" where
  "verifyToken mac JWT_SECRET now tok =
     (case jwt_verify mac tok JWT_SECRET now of
        Inl e \<Rightarrow> Inl InvalidOrExpiredToken
      | Inr decoded \<Rightarrow> Inr decoded)"

section \<open>Post model (the Post schema and its methods, src/unnamed/part_013)\<close>


datatype post_status = Draft | Pending | Published | Rejected | Archived

text \<open>
  The fields of \<open>postSchema\<close>, in its order. The counters, \<open>seo.keywords\<close> and the
  timestamps, which none of the operations below reads, are left out.
\<close>

record post =
  title :: js_string
  content :: js_string
  author :: objectId
  category :: objectId
  slug :: js_string
  excerpt :: "js_string option"
  featuredImage :: "js_string option"
  tags :: "js_string list"
  status :: post_status
  isPublished :: bool
  publishedAt :: "date option"
  isApproved :: bool
  approvedBy :: "objectId option"
  approvedAt :: "date option"
  rejectionReason :: "js_string option"
  submittedForApproval :: bool
  submittedAt :: "date option"
  metaTitle :: "js_string option"
  metaDescription :: "js_string option"

type_synonym db = "objectId \<rightharpoonup> post"

datatype store_error = ValidationError | DuplicateKey | OtherStoreError

text \<open>
  The validators the schema declares (\<open>required\<close>, \<open>minlength\<close>, \<open>maxlength\<close>);
  they compare \<open>value.length\<close>, the number of code units. \<open>author\<close>, \<open>category\<close> and
  \<open>status\<close> are present and well-formed by their types.
\<close>

definition max_length :: "nat \<Rightarrow> js_string option \<Rightarrow> bool" where
  "max_length n v = (case v of None \<Rightarrow> True | Some s \<Rightarrow> length s \<le> n)"

definition schema_valid :: "post \<Rightarrow> bool" where
  "schema_valid p =
     (3 \<le> length (title p) \<and> length (title p) \<le> 200 \<and>
      10 \<le> length (content p) \<and> length (content p) \<le> 10000 \<and>
      slug p \<noteq> [] \<and>
      max_length 300 (excerpt p) \<and>
      list_all (\<lambda>t. length t \<le> 50) (tags p) \<and>
      max_length 500 (rejectionReason p) \<and>
      max_length 60 (metaTitle p) \<and>
      max_length 160 (metaDescription p))"

text \<open>The \<open>pre('save')\<close> hook. A Date is truthy; an excerpt is falsy when missing or empty.\<close>

definition pre_save :: "date \<Rightarrow> post \<Rightarrow> post" where
  "pre_save now p =
     (let p = (if (excerpt p = None \<or> excerpt p = Some []) \<and> content p \<noteq> []
               then p\<lparr>excerpt := Some (take 150 (content p) @ js ''...'')\<rparr> else p);
          p = (if status p = Published \<and> publishedAt p = None
               then p\<lparr>publishedAt := Some now, isPublished := True\<rparr> else p);
          p = (if status p = Pending \<and> \<not> submittedForApproval p
               then p\<lparr>submittedForApproval := True, submittedAt := Some now\<rparr> else p);
          p = (if status p = Published \<and> \<not> isApproved p
               then p\<lparr>isApproved := True\<rparr> else p)
      in p)"





section \<open>Middleware (server/src/middleware/auth.js, server/src/middleware/errorHandler.js)\<close>

type_synonym response = "nat \<times> post option"

definition fail :: "nat \<Rightarrow> response" where
  "fail code = (code, None)"

text \<open>
  \<open>errorHandler\<close> answers a validation error and a duplicate key with 400, and an
  error it does not know with 500.
\<close>

fun errorHandler :: "store_error \<Rightarrow> response" where
  "errorHandler ValidationError = fail 400"
| "errorHandler DuplicateKey = fail 400"
| "errorHandler OtherStoreError = fail 500"

text \<open>
  \<open>authenticate\<close> leaves in \<open>req.user\<close> the user the token stands for; \<open>None\<close> is a
  request without a valid token. \<open>authorize(...roles)\<close> answers with a status code or
  calls \<open>next()\<close>, which is \<open>None\<close> here.
\<close>

definition authorize :: "js_string list \<Rightarrow> user option \<Rightarrow> nat option" where
  "authorize roles usr =
     (if usr = None then Some 401
      else case hasRole usr (Many roles) of
             Inl e \<Rightarrow> Some 500
           | Inr allowed \<Rightarrow> if \<not> allowed then Some 403 else None)"

section \<open>Library functions the handlers call\<close>

text \<open>
  Two functions come from outside the repository and are parameters of the handlers:
  the character count of the validation library's \<open>isLength\<close>, and
  \<open>String.prototype.toLowerCase\<close>, whose table is the Unicode case mapping.
\<close>

record library =
  char_count :: "js_string \<Rightarrow> nat"
  toLowerCase :: "js_string \<Rightarrow> js_string"

text \<open>\<open>trim\<close> removes white space and line terminators at both ends.\<close>

definition js_whitespace :: "code_unit \<Rightarrow> bool" where
  "js_whitespace c =
     (c \<in> {0x09, 0x0A, 0x0B, 0x0C, 0x0D, 0x20, 0xA0, 0x1680, 0x2028, 0x2029, 0x202F,
            0x205F, 0x3000, 0xFEFF} \<or> (0x2000 \<le> c \<and> c \<le> 0x200A))"

definition js_trim :: "js_string \<Rightarrow> js_string" where
  "js_trim s = rev (dropWhile js_whitespace (rev (dropWhile js_whitespace s)))"

text \<open>
  \<open>body(f).isLength({min, max})\<close>: a missing field is validated as the empty string,
  which has no characters. With \<open>.optional()\<close> a missing field is not validated.
\<close>

definition isLength :: "library \<Rightarrow> nat \<Rightarrow> nat \<Rightarrow> js_string option \<Rightarrow> bool" where
  "isLength lib lo hi v =
     (let n = (case v of None \<Rightarrow> 0 | Some s \<Rightarrow> char_count lib s) in lo \<le> n \<and> n \<le> hi)"

definition optional :: "('a option \<Rightarrow> bool) \<Rightarrow> 'a option \<Rightarrow> bool" where
  "optional check v = (case v of None \<Rightarrow> True | Some x \<Rightarrow> check v)"

section \<open>Lifecycle handlers (the posts router, second module of server/src/routes/users.js)\<close>




section \<open>Creating and updating posts (the posts router)\<close>

text \<open>
  The plain paths of a JSON body of \<open>POST /api/posts\<close> and \<open>PUT /api/posts/:id\<close>: every
  path of the schema that a client may send, \<open>None\<close> when the body does not carry it. A
  path that is present carries a value of the schema's type; \<open>seo\<close> is an object.
\<close>

record seo_body =
  s_metaTitle :: "js_string option"
  s_metaDescription :: "js_string option"

record post_body =
  b_title :: "js_string option"
  b_content :: "js_string option"
  b_author :: "objectId option"
  b_category :: "objectId option"
  b_slug :: "js_string option"
  b_excerpt :: "js_string option"
  b_featuredImage :: "js_string option"
  b_tags :: "js_string list option"
  b_status :: "js_string option"
  b_isPublished :: "bool option"
  b_publishedAt :: "date option"
  b_isApproved :: "bool option"
  b_approvedBy :: "objectId option"
  b_approvedAt :: "date option"
  b_rejectionReason :: "js_string option"
  b_submittedForApproval :: "bool option"
  b_submittedAt :: "date option"
  b_seo :: "seo_body option"

text \<open>
  The whole body of a request: the plain paths at its top level; the document under the
  key \<open>$set\<close>; and its remaining keys (update operators other than \<open>$set\<close>, dotted
  paths, a body that is an array), which are given as the update the document mapper and
  the store make of them.
\<close>

record request_body =
  plain :: post_body
  dollar_set :: "post_body option"
  other_keys :: "(post \<Rightarrow> store_error + post) option"

definition isIn :: "js_string list \<Rightarrow> js_string option \<Rightarrow> bool" where
  "isIn allowed v = ((case v of None \<Rightarrow> [] | Some s \<Rightarrow> s) \<in> set allowed)"

text \<open>\<open>/^[a-z0-9-]+$/\<close>\<close>

definition slug_pattern :: "js_string option \<Rightarrow> bool" where
  "slug_pattern v =
     (let s = (case v of None \<Rightarrow> [] | Some s \<Rightarrow> s)
      in s \<noteq> [] \<and> list_all (\<lambda>c. lowercase c \<or> digit c \<or> c = 0x2D) s)"

definition tags_valid :: "library \<Rightarrow> js_string list option \<Rightarrow> bool" where
  "tags_valid lib v =
     (case v of None \<Rightarrow> True | Some ts \<Rightarrow> list_all (\<lambda>t. isLength lib 0 50 (Some t)) ts)"

text \<open>\<open>body('seo.metaTitle')\<close> and \<open>body('seo.metaDescription')\<close> read inside the \<open>seo\<close> object.\<close>

definition seo_metaTitle :: "post_body \<Rightarrow> js_string option" where
  "seo_metaTitle body = (case b_seo body of None \<Rightarrow> None | Some s \<Rightarrow> s_metaTitle s)"

definition seo_metaDescription :: "post_body \<Rightarrow> js_string option" where
  "seo_metaDescription body = (case b_seo body of None \<Rightarrow> None | Some s \<Rightarrow> s_metaDescription s)"

text \<open>
  The validation chains both handlers share. They read the top level of the body;
  \<open>category\<close> and \<open>tags\<close> are well-formed by their types.
\<close>

definition common_chains :: "library \<Rightarrow> post_body \<Rightarrow> bool" where
  "common_chains lib body =
     (optional (isLength lib 0 300) (b_excerpt body) \<and>
      tags_valid lib (b_tags body) \<and>
      optional (isIn [js ''draft'', js ''published'', js ''archived'']) (b_status body) \<and>
      optional (isLength lib 0 60) (seo_metaTitle body) \<and>
      optional (isLength lib 0 160) (seo_metaDescription body))"

definition create_chains :: "library \<Rightarrow> post_body \<Rightarrow> bool" where
  "create_chains lib body =
     (isLength lib 3 200 (b_title body) \<and>
      isLength lib 10 10000 (b_content body) \<and>
      b_category body \<noteq> None \<and>
      isLength lib 3 100 (b_slug body) \<and> slug_pattern (b_slug body) \<and>
      common_chains lib body)"

definition update_chains :: "library \<Rightarrow> post_body \<Rightarrow> bool" where
  "update_chains lib body =
     (optional (isLength lib 3 200) (b_title body) \<and>
      optional (isLength lib 10 10000) (b_content body) \<and>
      common_chains lib body)"

text \<open>The schema casts a status string to the enum.\<close>

definition cast_status :: "js_string \<Rightarrow> post_status option" where
  "cast_status s =
     (if s = js ''draft'' then Some Draft
      else if s = js ''pending'' then Some Pending
      else if s = js ''published'' then Some Published
      else if s = js ''rejected'' then Some Rejected
      else if s = js ''archived'' then Some Archived
      else None)"

text \<open>The setters of the schema: \<open>trim\<close> on title, slug and tags, \<open>lowercase\<close> on slug.\<close>

definition cast_slug :: "library \<Rightarrow> js_string \<Rightarrow> js_string" where
  "cast_slug lib s = js_trim (toLowerCase lib s)"

definition set_path :: "'a option \<Rightarrow> 'a \<Rightarrow> 'a" where
  "set_path v old = (case v of None \<Rightarrow> old | Some x \<Rightarrow> x)"

definition set_nullable :: "'a option \<Rightarrow> 'a option \<Rightarrow> 'a option" where
  "set_nullable v old = (case v of None \<Rightarrow> old | Some x \<Rightarrow> Some x)"

text \<open>The unique index on \<open>slug\<close>: another document holds the value.\<close>

definition slug_taken :: "db \<Rightarrow> objectId \<Rightarrow> js_string \<Rightarrow> bool" where
  "slug_taken store i s = (\<exists>q \<in> ran (store |` (- {i})). slug q = s)"

text \<open>
  \<open>Post.findByIdAndUpdate(id, req.body, {new: true, runValidators: true})\<close> takes the
  body as an update document. The document mapper moves the top-level paths into
  \<open>$set\<close>, over what \<open>$set\<close> holds for the same path.
\<close>

definition first_of :: "'a option \<Rightarrow> 'a option \<Rightarrow> 'a option" where
  "first_of a b = (case a of None \<Rightarrow> b | Some x \<Rightarrow> Some x)"

definition merge_bodies :: "post_body \<Rightarrow> post_body \<Rightarrow> post_body" where
  "merge_bodies t s =
     \<lparr>b_title = first_of (b_title t) (b_title s),
      b_content = first_of (b_content t) (b_content s),
      b_author = first_of (b_author t) (b_author s),
      b_category = first_of (b_category t) (b_category s),
      b_slug = first_of (b_slug t) (b_slug s),
      b_excerpt = first_of (b_excerpt t) (b_excerpt s),
      b_featuredImage = first_of (b_featuredImage t) (b_featuredImage s),
      b_tags = first_of (b_tags t) (b_tags s),
      b_status = first_of (b_status t) (b_status s),
      b_isPublished = first_of (b_isPublished t) (b_isPublished s),
      b_publishedAt = first_of (b_publishedAt t) (b_publishedAt s),
      b_isApproved = first_of (b_isApproved t) (b_isApproved s),
      b_approvedBy = first_of (b_approvedBy t) (b_approvedBy s),
      b_approvedAt = first_of (b_approvedAt t) (b_approvedAt s),
      b_rejectionReason = first_of (b_rejectionReason t) (b_rejectionReason s),
      b_submittedForApproval = first_of (b_submittedForApproval t) (b_submittedForApproval s),
      b_submittedAt = first_of (b_submittedAt t) (b_submittedAt s),
      b_seo = first_of (b_seo t) (b_seo s)\<rparr>"

definition set_document :: "request_body \<Rightarrow> post_body" where
  "set_document body =
     (case dollar_set body of None \<Rightarrow> plain body | Some s \<Rightarrow> merge_bodies (plain body) s)"

text \<open>
  The paths of the \<open>$set\<close> document are cast and set on the stored document; a \<open>seo\<close>
  object replaces the one stored, so that a field it does not name is gone.
\<close>

definition apply_body :: "library \<Rightarrow> post_body \<Rightarrow> post_status \<Rightarrow> post \<Rightarrow> post" where
  "apply_body lib body st p =
     p\<lparr>title := set_path (map_option js_trim (b_title body)) (title p),
       content := set_path (b_content body) (content p),
       author := set_path (b_author body) (author p),
       category := set_path (b_category body) (category p),
       slug := set_path (map_option (cast_slug lib) (b_slug body)) (slug p),
       excerpt := set_nullable (b_excerpt body) (excerpt p),
       featuredImage := set_nullable (b_featuredImage body) (featuredImage p),
       tags := set_path (map_option (map js_trim) (b_tags body)) (tags p),
       status := st,
       isPublished := set_path (b_isPublished body) (isPublished p),
       publishedAt := set_nullable (b_publishedAt body) (publishedAt p),
       isApproved := set_path (b_isApproved body) (isApproved p),
       approvedBy := set_nullable (b_approvedBy body) (approvedBy p),
       approvedAt := set_nullable (b_approvedAt body) (approvedAt p),
       rejectionReason := set_nullable (b_rejectionReason body) (rejectionReason p),
       submittedForApproval := set_path (b_submittedForApproval body) (submittedForApproval p),
       submittedAt := set_nullable (b_submittedAt body) (submittedAt p),
       metaTitle := (case b_seo body of None \<Rightarrow> metaTitle p | Some s \<Rightarrow> s_metaTitle s),
       metaDescription :=
         (case b_seo body of None \<Rightarrow> metaDescription p | Some s \<Rightarrow> s_metaDescription s)\<rparr>"

text \<open>With \<open>runValidators\<close> the validators of the paths that are set run.\<close>

definition update_validators :: "post_body \<Rightarrow> post \<Rightarrow> bool" where
  "update_validators body p =
     ((b_title body = None \<or> (3 \<le> length (title p) \<and> length (title p) \<le> 200)) \<and>
      (b_content body = None \<or> (10 \<le> length (content p) \<and> length (content p) \<le> 10000)) \<and>
      (b_slug body = None \<or> slug p \<noteq> []) \<and>
      (b_excerpt body = None \<or> max_length 300 (excerpt p)) \<and>
      (b_tags body = None \<or> list_all (\<lambda>t. length t \<le> 50) (tags p)) \<and>
      (b_rejectionReason body = None \<or> max_length 500 (rejectionReason p)) \<and>
      (b_seo body = None \<or> (max_length 60 (metaTitle p) \<and> max_length 160 (metaDescription p))))"

text \<open>
  The update: the status string of the \<open>$set\<close> document is one of the enum's names or
  the cast fails; the validators run; the unique index is checked when the slug is
  written; the remaining keys of the body are applied; no \<open>save\<close> hook runs.
\<close>

definition findByIdAndUpdate :: "library \<Rightarrow> objectId \<Rightarrow> request_body \<Rightarrow> db
    \<Rightarrow> store_error + post option \<times> db" where
  "findByIdAndUpdate lib i body store =
     (case store i of
        None \<Rightarrow> Inr (None, store)
      | Some p \<Rightarrow>
          let paths = set_document body in
          (case (case b_status paths of None \<Rightarrow> Some (status p) | Some s \<Rightarrow> cast_status s) of
             None \<Rightarrow> Inl ValidationError
           | Some st \<Rightarrow>
               let p' = apply_body lib paths st p in
               if \<not> update_validators paths p' then Inl ValidationError
               else if b_slug paths \<noteq> None \<and> slug_taken store i (slug p') then Inl DuplicateKey
               else (case (case other_keys body of None \<Rightarrow> Inr p' | Some f \<Rightarrow> f p') of
                       Inl e \<Rightarrow> Inl e
                     | Inr p'' \<Rightarrow> Inr (Some p'', store(i \<mapsto> p'')))))"

text \<open>
  \<open>PUT /api/posts/:id\<close>. The validation chains read the top level of the body; the chain
  on \<open>title\<close> ends with \<open>trim\<close>, which rewrites \<open>req.body.title\<close>. The body goes to
  \<open>findByIdAndUpdate\<close> whole.
\<close>

definition update_route :: "library \<Rightarrow> user option \<Rightarrow> objectId \<Rightarrow> request_body \<Rightarrow> db \<Rightarrow> response \<times> db" where
  "update_route lib usr i body store =
     (case usr of
        None \<Rightarrow> (fail 401, store)
      | Some u \<Rightarrow>
          if \<not> update_chains lib (plain body) then (fail 400, store)
          else
            (case store i of
               None \<Rightarrow> (fail 404, store)
             | Some p \<Rightarrow>
                 let isAuthor = (author p = uid u);
                     isAdmin = (role u = Some (js ''admin''))
                 in if \<not> isAuthor \<and> \<not> isAdmin then (fail 403, store)
                    else (case findByIdAndUpdate lib i
                                 (body\<lparr>plain := (plain body)
                                     \<lparr>b_title := map_option js_trim (b_title (plain body))\<rparr>\<rparr>) store of
                            Inl e \<Rightarrow> (errorHandler e, store)
                          | Inr (p', store') \<Rightarrow> ((200, p'), store'))))"

text \<open>
  \<open>new Post({...})\<close> with the schema's defaults, from the paths the handler of
  \<open>POST /api/posts\<close> picks out of the top level of the body; the author is the
  authenticated user.
\<close>

definition new_post :: "library \<Rightarrow> objectId \<Rightarrow> post_body \<Rightarrow> post_status \<Rightarrow> post" where
  "new_post lib authorId body st =
     \<lparr>title = js_trim (set_path (b_title body) []),
      content = set_path (b_content body) [],
      author = authorId,
      category = set_path (b_category body) 0,
      slug = cast_slug lib (set_path (b_slug body) []),
      excerpt = b_excerpt body,
      featuredImage = b_featuredImage body,
      tags = map js_trim (set_path (b_tags body) []),
      status = st,
      isPublished = False,
      publishedAt = None,
      isApproved = False,
      approvedBy = None,
      approvedAt = None,
      rejectionReason = None,
      submittedForApproval = False,
      submittedAt = None,
      metaTitle = seo_metaTitle body,
      metaDescription = seo_metaDescription body\<rparr>"

text \<open>\<open>Post.findBySlug(slug)\<close> finds a document or not.\<close>

definition findBySlug :: "library \<Rightarrow> db \<Rightarrow> js_string \<Rightarrow> bool" where
  "findBySlug lib store s = (\<exists>q \<in> ran store. slug q = toLowerCase lib s)"

text \<open>\<open>save\<close> on a new document, which the store inserts under the unique index.\<close>

definition save_new :: "date \<Rightarrow> objectId \<Rightarrow> post \<Rightarrow> db \<Rightarrow> store_error + post \<times> db" where
  "save_new now i p store =
     (if \<not> schema_valid p then Inl ValidationError
      else let p' = pre_save now p
           in if slug_taken store i (slug p') then Inl DuplicateKey
              else Inr (p', store(i \<mapsto> p')))"

text \<open>\<open>POST /api/posts\<close>; \<open>new_id\<close> is the identifier the new document gets.\<close>

definition create_route :: "library \<Rightarrow> date \<Rightarrow> objectId \<Rightarrow> user option \<Rightarrow> request_body \<Rightarrow> db
    \<Rightarrow> response \<times> db" where
  "create_route lib now new_id usr body store =
     (case usr of
        None \<Rightarrow> (fail 401, store)
      | Some u \<Rightarrow>
          if \<not> create_chains lib (plain body) then (fail 400, store)
          else
            let paths = (plain body)\<lparr>b_title := map_option js_trim (b_title (plain body))\<rparr>;
                st = (case b_status paths of None \<Rightarrow> js ''draft'' | Some s \<Rightarrow> s)
            in if findBySlug lib store (set_path (b_slug paths) []) then (fail 400, store)
               else (case cast_status st of
                       None \<Rightarrow> (errorHandler ValidationError, store)
                     | Some st' \<Rightarrow>
                         (case save_new now new_id (new_post lib (uid u) paths st') store of
                            Inl e \<Rightarrow> (errorHandler e, store)
                          | Inr (p', store') \<Rightarrow> ((201, Some p'), store'))))"

section \<open>Numbers\<close>

text \<open>
  A JavaScript number is a double: a rational with a 53-bit significand, an infinity, or
  NaN. Every arithmetic operation gives the double nearest to the exact result, ties to
  the even significand. The sign of zero is not kept.
\<close>

datatype js_number = Finite rat | PosInfinity | NegInfinity | NaN

text \<open>The binary exponent of a positive rational \<open>x\<close>: \<open>2 powi e \<le> x < 2 powi (e + 1)\<close>.\<close>

definition exponent :: "rat \<Rightarrow> int" where
  "exponent x =
     (let e = bitlen (fst (quotient_of x)) - bitlen (snd (quotient_of x))
      in if 2 powi e \<le> x then e else e - 1)"

definition round_half_even :: "rat \<Rightarrow> int" where
  "round_half_even q =
     (let f = \<lfloor>q\<rfloor>; d = q - of_int f
      in if d < 1 / 2 then f else if 1 / 2 < d then f + 1 else if even f then f else f + 1)"

text \<open>
  Rounding to a double: 53 significant bits from exponent -1022 up, the spacing of
  exponent -1022 below it, infinity from \<open>2 ^ 1024\<close> on.
\<close>

definition round_double :: "rat \<Rightarrow> js_number" where
  "round_double x =
     (if x = 0 then Finite 0
      else let e = max (exponent \<bar>x\<bar>) (- 1022);
               u = 2 powi (e - 52);
               y = of_int (round_half_even (\<bar>x\<bar> / u)) * u
           in if 2 ^ 1024 \<le> y then (if 0 < x then PosInfinity else NegInfinity)
              else Finite (if 0 < x then y else - y))"

definition js_sign :: "js_number \<Rightarrow> int" where
  "js_sign a =
     (case a of Finite x \<Rightarrow> (if x < 0 then - 1 else if x = 0 then 0 else 1)
              | PosInfinity \<Rightarrow> 1 | NegInfinity \<Rightarrow> - 1 | NaN \<Rightarrow> 0)"

definition js_sub :: "js_number \<Rightarrow> js_number \<Rightarrow> js_number" where
  "js_sub a b =
     (case (a, b) of
        (Finite x, Finite y) \<Rightarrow> round_double (x - y)
      | (NaN, _) \<Rightarrow> NaN
      | (_, NaN) \<Rightarrow> NaN
      | (PosInfinity, PosInfinity) \<Rightarrow> NaN
      | (NegInfinity, NegInfinity) \<Rightarrow> NaN
      | (PosInfinity, _) \<Rightarrow> PosInfinity
      | (NegInfinity, _) \<Rightarrow> NegInfinity
      | (Finite x, PosInfinity) \<Rightarrow> NegInfinity
      | (Finite x, NegInfinity) \<Rightarrow> PosInfinity)"

definition js_mul :: "js_number \<Rightarrow> js_number \<Rightarrow> js_number" where
  "js_mul a b =
     (case (a, b) of
        (Finite x, Finite y) \<Rightarrow> round_double (x * y)
      | _ \<Rightarrow> if a = NaN \<or> b = NaN \<or> js_sign a * js_sign b = 0 then NaN
             else if 0 < js_sign a * js_sign b then PosInfinity else NegInfinity)"

definition js_div :: "js_number \<Rightarrow> js_number \<Rightarrow> js_number" where
  "js_div a b =
     (case (a, b) of
        (Finite x, Finite y) \<Rightarrow>
          if y = 0 then (if x = 0 then NaN else if 0 < x then PosInfinity else NegInfinity)
          else round_double (x / y)
      | (NaN, _) \<Rightarrow> NaN
      | (_, NaN) \<Rightarrow> NaN
      | (Finite x, _) \<Rightarrow> Finite 0
      | (_, Finite y) \<Rightarrow>
          if (0 < js_sign a) = (0 \<le> y) then PosInfinity else NegInfinity
      | _ \<Rightarrow> NaN)"

definition js_ceil :: "js_number \<Rightarrow> js_number" where
  "js_ceil a = (case a of Finite x \<Rightarrow> Finite (of_int \<lceil>x\<rceil>) | _ \<Rightarrow> a)"

definition js_less :: "js_number \<Rightarrow> js_number \<Rightarrow> bool" where
  "js_less a b =
     (case (a, b) of
        (Finite x, Finite y) \<Rightarrow> x < y
      | (NaN, _) \<Rightarrow> False
      | (_, NaN) \<Rightarrow> False
      | (NegInfinity, NegInfinity) \<Rightarrow> False
      | (NegInfinity, _) \<Rightarrow> True
      | (_, NegInfinity) \<Rightarrow> False
      | (PosInfinity, _) \<Rightarrow> False
      | (_, PosInfinity) \<Rightarrow> True)"

text \<open>
  \<open>parseInt\<close> of a decimal numeral, and the number a comparison makes of the same
  string: the double nearest to the numeral.
\<close>

definition parse_numeral :: "nat \<Rightarrow> js_number" where
  "parse_numeral n = round_double (of_nat n)"

section \<open>Listing posts (the posts router)\<close>

record pagination =
  currentPage :: js_number
  totalPages :: js_number
  totalItems :: js_number
  itemsPerPage :: js_number
  hasNextPage :: bool
  hasPrevPage :: bool

record posts_page =
  posts :: "post list"
  pagination :: pagination

text \<open>
  \<open>find(query).sort(sort).skip(skip).limit(limitNum)\<close> on the records \<open>matching\<close> the
  query, in sort order. The store refuses a negative skip and a skip or limit that is
  not finite, and takes a limit of 0 as no limit.
\<close>

definition find_window :: "js_number \<Rightarrow> js_number \<Rightarrow> post list \<Rightarrow> nat + post list" where
  "find_window skip limitNum matching =
     (case (skip, limitNum) of
        (Finite s, Finite l) \<Rightarrow>
          if s < 0 then Inl 500
          else if l = 0 then Inr (drop (nat \<lfloor>s\<rfloor>) matching)
          else Inr (take (nat \<lfloor>l\<rfloor>) (drop (nat \<lfloor>s\<rfloor>) matching))
      | _ \<Rightarrow> Inl 500)"

text \<open>
  The part the three list handlers share. \<open>page\<close> and \<open>limit\<close> are the query
  parameters, decimal numerals when present, with the defaults 1 and 10;
  \<open>countDocuments(query)\<close> counts the matching records.
\<close>

definition list_page :: "nat option \<Rightarrow> nat option \<Rightarrow> post list \<Rightarrow> nat + posts_page" where
  "list_page page limit matching =
     (let pageNum = (case page of None \<Rightarrow> Finite 1 | Some n \<Rightarrow> parse_numeral n);
          limitNum = (case limit of None \<Rightarrow> Finite 10 | Some n \<Rightarrow> parse_numeral n);
          skip = js_mul (js_sub pageNum (Finite 1)) limitNum
      in case find_window skip limitNum matching of
           Inl code \<Rightarrow> Inl code
         | Inr found \<Rightarrow>
             let n = round_double (of_nat (length matching));
                 pages = js_ceil (js_div n limitNum)
             in Inr \<lparr>posts = found,
                     pagination = \<lparr>currentPage = pageNum, totalPages = pages, totalItems = n,
                                   itemsPerPage = limitNum,
                                   hasNextPage = js_less pageNum pages,
                                   hasPrevPage = js_less (Finite 1) pageNum\<rparr>\<rparr>)"

text \<open>\<open>GET /api/posts\<close>, \<open>GET /api/posts/my-posts\<close>, \<open>GET /api/posts/pending/approval\<close>\<close>

definition get_posts :: "nat option \<Rightarrow> nat option \<Rightarrow> post list \<Rightarrow> nat + posts_page" where
  "get_posts page limit matching = list_page page limit matching"

definition get_my_posts :: "user option \<Rightarrow> nat option \<Rightarrow> nat option \<Rightarrow> post list \<Rightarrow> nat + posts_page" where
  "get_my_posts usr page limit matching =
     (if usr = None then Inl 401 else list_page page limit matching)"

definition get_pending_approval :: "user option \<Rightarrow> nat option \<Rightarrow> nat option \<Rightarrow> post list
    \<Rightarrow> nat + posts_page" where
  "get_pending_approval usr page limit matching =
     (if usr = None then Inl 401
      else case authorize [js ''admin''] usr of
             Some code \<Rightarrow> Inl code
           | None \<Rightarrow> list_page page limit matching)"

section \<open>The state machine of the specification\<close>

text \<open>
  The transitions the specification draws:
  draft to pending, pending to published, pending to rejected, published to archived.
\<close>

fun lifecycle_step :: "post_status \<Rightarrow> post_status \<Rightarrow> bool" where
  "lifecycle_step Draft Pending = True"
| "lifecycle_step Pending Published = True"
| "lifecycle_step Pending Rejected = True"
| "lifecycle_step Published Archived = True"
| "lifecycle_step _ _ = False"

section \<open>Sample values\<close>





definition sample_post :: post where
  "sample_post =
     \<lparr>title = js ''First post'',
      content = js ''Some words about testing.'',
      author = 7,
      category = 3,
      slug = js ''first-post'',
      excerpt = Some (js ''Some words''),
      featuredImage = None,
      tags = [js ''test''],
      status = Draft,
      isPublished = False,
      publishedAt = None,
      isApproved = False,
      approvedBy = None,
      approvedAt = None,
      rejectionReason = None,
      submittedForApproval = False,
      submittedAt = None,
      metaTitle = None,
      metaDescription = None\<rparr>"

definition empty_paths :: post_body where
  "empty_paths =
     \<lparr>b_title = None, b_content = None, b_author = None, b_category = None, b_slug = None,
      b_excerpt = None, b_featuredImage = None, b_tags = None, b_status = None,
      b_isPublished = None, b_publishedAt = None, b_isApproved = None, b_approvedBy = None,
      b_approvedAt = None, b_rejectionReason = None, b_submittedForApproval = None,
      b_submittedAt = None, b_seo = None\<rparr>"

text \<open>A body with plain paths only.\<close>

definition plain_body :: "post_body \<Rightarrow> request_body" where
  "plain_body paths = \<lparr>plain = paths, dollar_set = None, other_keys = None\<rparr>"

definition sample_store :: db where
  "sample_store = [1 \<mapsto> sample_post]"


definition sample_admin :: user where
  "sample_admin =
     \<lparr>uid = 1, username = js ''root'', email = js ''root@example.com'', role = Some (js ''admin'')\<rparr>"

text \<open>A keyed hash to run the token functions with.\<close>

definition sample_mac :: "user_payload mac" where
  "sample_mac secret c = secret @ p_username (c_payload c)"

section \<open>Properties of the password check\<close>

lemma dot_star_class_imp: "dot_star_class cls s \<Longrightarrow> \<exists>c\<in>set s. cls c"
  by (induction s) auto

lemma lookahead_test_iff: "lookahead_test cls s \<longleftrightarrow> (\<exists>c\<in>set s. cls c)"
proof (induction s)
  case Nil
  then show ?case by simp
next
  case (Cons c cs)
  have "dot_star_class cls (c # cs) \<Longrightarrow> cls c \<or> (\<exists>x\<in>set cs. cls x)"
    using dot_star_class_imp [of cls "c # cs"] by auto
  with Cons show ?case by auto
qed

lemma messages_distinct:
  "distinct [js ''Password must be at least 8 characters long'',
             js ''Password must contain at least one lowercase letter'',
             js ''Password must contain at least one uppercase letter'',
             js ''Password must contain at least one number'',
             js ''Password must contain at least one special character (@$!%*?&)'']"
  by (simp add: js_def)

lemma too_short_Str: "too_short (Str p) = Inr (length p < 8)"
  by (cases p) (simp_all add: too_short_def)

lemma regex_test_Str: "regex_test cls (Str p) = Inr (\<exists>c\<in>set p. cls c)"
  by (simp add: regex_test_def lookahead_test_iff)

lemma push_if_members:
  fixes b1 b2 b3 b4 b5 :: bool
  assumes "distinct [m1, m2, m3, m4, m5]"
    and "es = push_if b5 m5 (push_if b4 m4 (push_if b3 m3 (push_if b2 m2 (push_if b1 m1 []))))"
  shows "m1 \<in> set es \<longleftrightarrow> b1" and "m2 \<in> set es \<longleftrightarrow> b2" and "m3 \<in> set es \<longleftrightarrow> b3"
    and "m4 \<in> set es \<longleftrightarrow> b4" and "m5 \<in> set es \<longleftrightarrow> b5"
  using assms by (auto simp add: push_if_def)

lemma push_if_empty:
  "push_if b5 m5 (push_if b4 m4 (push_if b3 m3 (push_if b2 m2 (push_if b1 m1 [])))) = []
     \<longleftrightarrow> \<not> b1 \<and> \<not> b2 \<and> \<not> b3 \<and> \<not> b4 \<and> \<not> b5"
  by (simp add: push_if_def)

lemma validatePasswordStrength_cases:
  "validatePasswordStrength v =
     (case too_short v of
        Inl e \<Rightarrow> Inl e
      | Inr short \<Rightarrow>
          (case to_string v of
             Inl e \<Rightarrow> Inl e
           | Inr s \<Rightarrow>
               (let es = push_if (\<not> lookahead_test special s)
                           (js ''Password must contain at least one special character (@$!%*?&)'')
                        (push_if (\<not> lookahead_test digit s)
                           (js ''Password must contain at least one number'')
                        (push_if (\<not> lookahead_test uppercase s)
                           (js ''Password must contain at least one uppercase letter'')
                        (push_if (\<not> lookahead_test lowercase s)
                           (js ''Password must contain at least one lowercase letter'')
                        (push_if short (js ''Password must be at least 8 characters long'') []))))
                in Inr \<lparr>isValid = (es = []), errors = es\<rparr>)))"
proof (cases "too_short v")
  case (Inl e)
  then show ?thesis by (simp add: validatePasswordStrength_def)
next
  case short: (Inr short)
  show ?thesis
  proof (cases "to_string v")
    case (Inl e)
    with short show ?thesis by (simp add: validatePasswordStrength_def regex_test_def)
  next
    case (Inr s)
    with short show ?thesis by (simp add: validatePasswordStrength_def regex_test_def Let_def)
  qed
qed

text \<open>
  Claim C6. For a password string that is at least 8 code units long and holds a lowercase
  letter, an uppercase letter, a digit and one of the symbols \<open>@$!%*?&\<close>,
  \<open>validatePasswordStrength\<close> returns \<open>isValid = true\<close> and no errors. For every
  password string, the message of a rule is in the errors exactly when the password breaks
  that rule, whatever the other rules say.
\<close>

theorem validatePasswordStrength_rules:
  "\<exists>r. validatePasswordStrength (Str p) = Inr r \<and>
     (8 \<le> length p \<and> (\<exists>c\<in>set p. lowercase c) \<and> (\<exists>c\<in>set p. uppercase c) \<and>
        (\<exists>c\<in>set p. digit c) \<and> (\<exists>c\<in>set p. special c)
        \<longrightarrow> isValid r \<and> errors r = []) \<and>
     (length p < 8 \<longleftrightarrow>
        js ''Password must be at least 8 characters long'' \<in> set (errors r)) \<and>
     ((\<forall>c\<in>set p. \<not> lowercase c) \<longleftrightarrow>
        js ''Password must contain at least one lowercase letter'' \<in> set (errors r)) \<and>
     ((\<forall>c\<in>set p. \<not> uppercase c) \<longleftrightarrow>
        js ''Password must contain at least one uppercase letter'' \<in> set (errors r)) \<and>
     ((\<forall>c\<in>set p. \<not> digit c) \<longleftrightarrow>
        js ''Password must contain at least one number'' \<in> set (errors r)) \<and>
     ((\<forall>c\<in>set p. \<not> special c) \<longleftrightarrow>
        js ''Password must contain at least one special character (@$!%*?&)'' \<in> set (errors r))"
  by (simp add: validatePasswordStrength_cases too_short_Str lookahead_test_iff Let_def
        push_if_members [OF messages_distinct refl] push_if_empty)

theorem validatePasswordStrength_rules_witness:
  "validatePasswordStrength (Str (js ''StrongPass123!'')) = Inr \<lparr>isValid = True, errors = []\<rparr>
   \<and> (\<exists>r. validatePasswordStrength (Str (js ''Ab1!'')) = Inr r \<and> js ''Password must be at least 8 characters long'' \<in> set (errors r))"
  using validatePasswordStrength_rules [of "js ''StrongPass123!''"] validatePasswordStrength_rules [of "js ''Ab1!''"]
  by (auto simp add: js_def lowercase_def uppercase_def digit_def special_def)

text \<open>
  Claim C10, as stated, fails on an input that cannot be converted to a string. The parsed
  JSON object \<open>{"toString": 1}\<close> is truthy, its \<open>length\<close> is undefined, so that
  \<open>length < 8\<close> is false, and its conversion throws: the first \<open>test\<close> throws a
  TypeError out of \<open>validatePasswordStrength\<close>.
\<close>

theorem validatePasswordStrength_throws_counterexample:
  "validatePasswordStrength (Other True (Inr False) (Inl TypeError)) = Inl TypeError"
  by (simp add: validatePasswordStrength_cases too_short_def)

text \<open>
  Claim C10, amended. \<open>validatePasswordStrength\<close> returns a result on \<open>undefined\<close>,
  on \<open>null\<close>, on every string, the empty one among them, and on every other value
  whose conversion to a string does not throw and whose length comparison does not throw
  or, the value being falsy, is not made; whenever it returns, \<open>isValid\<close> is true
  exactly when the errors are empty. On a value whose conversion to a string throws, it
  throws a TypeError.
\<close>

theorem validatePasswordStrength_returns:
  "(\<exists>r. validatePasswordStrength Undefined = Inr r) \<and>
   (\<exists>r. validatePasswordStrength Null = Inr r) \<and>
   (\<exists>r. validatePasswordStrength (Str s) = Inr r) \<and>
   (\<exists>r. validatePasswordStrength (Other t (Inr b) (Inr s)) = Inr r) \<and>
   (\<exists>r. validatePasswordStrength (Other False l (Inr s)) = Inr r) \<and>
   (validatePasswordStrength v = Inr r \<longrightarrow> (isValid r \<longleftrightarrow> errors r = [])) \<and>
   (to_string v = Inl TypeError \<longrightarrow> validatePasswordStrength v = Inl TypeError)"
proof (intro conjI impI)
  show "\<exists>r. validatePasswordStrength Undefined = Inr r"
    by (simp add: validatePasswordStrength_cases too_short_def Let_def)
  show "\<exists>r. validatePasswordStrength Null = Inr r"
    by (simp add: validatePasswordStrength_cases too_short_def Let_def)
  show "\<exists>r. validatePasswordStrength (Str s) = Inr r"
    by (simp add: validatePasswordStrength_cases too_short_def Let_def)
  show "\<exists>r. validatePasswordStrength (Other t (Inr b) (Inr s)) = Inr r"
    by (simp add: validatePasswordStrength_cases too_short_def Let_def)
  show "\<exists>r. validatePasswordStrength (Other False l (Inr s)) = Inr r"
    by (simp add: validatePasswordStrength_cases too_short_def Let_def)
next
  assume "validatePasswordStrength v = Inr r"
  then show "isValid r \<longleftrightarrow> errors r = []"
    by (cases "too_short v"; cases "to_string v")
      (auto simp add: validatePasswordStrength_cases Let_def)
next
  assume t: "to_string v = Inl TypeError"
  show "validatePasswordStrength v = Inl TypeError"
  proof (cases "too_short v")
    case (Inl e)
    then show ?thesis by (cases e) (simp add: validatePasswordStrength_cases)
  next
    case (Inr b)
    with t show ?thesis by (simp add: validatePasswordStrength_cases)
  qed
qed

theorem validatePasswordStrength_returns_witness:
  "to_string (Other True (Inr False) (Inl TypeError)) = Inl TypeError \<and>
   validatePasswordStrength (Other True (Inr False) (Inl TypeError)) = Inl TypeError \<and>
   (\<exists>r. validatePasswordStrength (Str []) = Inr r \<and> (isValid r \<longleftrightarrow> errors r = []))"
proof -
  obtain r where r: "validatePasswordStrength (Str []) = Inr r"
    using validatePasswordStrength_returns [of "[]"] by blast
  from validatePasswordStrength_returns [of "[]" True True undefined "Str []" r] r
  have "isValid r \<longleftrightarrow> errors r = []" by blast
  with r validatePasswordStrength_returns
         [of "[]" True True undefined "Other True (Inr False) (Inl TypeError)" r]
  show ?thesis by simp
qed

section \<open>Properties of the role check\<close>




section \<open>Properties of the token functions\<close>

lemma generateToken_Some:
  "generateToken mac secret lifetime now (Some u) =
     Inr (Signed \<lparr>c_payload = \<lparr>p_id = uid u, p_username = username u, p_email = email u, p_role = role u\<rparr>,
                   c_iat = now div 1000, c_exp = Some (now div 1000 + lifetime),
                   c_iss = Some (js ''mern-testing-app''), c_aud = Some (js ''mern-testing-users'')\<rparr>
            (mac secret
               \<lparr>c_payload = \<lparr>p_id = uid u, p_username = username u, p_email = email u, p_role = role u\<rparr>,
                c_iat = now div 1000, c_exp = Some (now div 1000 + lifetime),
                c_iss = Some (js ''mern-testing-app''), c_aud = Some (js ''mern-testing-users'')\<rparr>))"
  by (simp add: generateToken_def jwt_sign_def Let_def)

text \<open>
  Claim C7. For every principal, a token made by \<open>generateToken\<close> and verified with the
  same secret before it expires is accepted by \<open>verifyToken\<close>, and the decoded claims
  carry the principal's id, username, email and role; verified when its lifetime has
  passed, it is refused. \<open>verifyToken\<close> fails on every string that is no token, on every
  token whose signature is not the one the secret gives for its contents, and on every
  token whose expiry the clock has reached.
\<close>

theorem verifyToken_generateToken:
  "(now' div 1000 < now div 1000 + lifetime \<longrightarrow>
      (\<exists>tok decoded.
          generateToken mac secret lifetime now (Some u) = Inr tok \<and>
          verifyToken mac secret now' tok = Inr decoded \<and>
          p_id (c_payload decoded) = uid u \<and>
          p_username (c_payload decoded) = username u \<and>
          p_email (c_payload decoded) = email u \<and>
          p_role (c_payload decoded) = role u)) \<and>
   (now div 1000 + lifetime \<le> now' div 1000 \<longrightarrow>
      (\<exists>tok. generateToken mac secret lifetime now (Some u) = Inr tok \<and>
             verifyToken mac secret now' tok = Inl InvalidOrExpiredToken)) \<and>
   verifyToken mac secret now' Malformed = Inl InvalidOrExpiredToken \<and>
   (s \<noteq> mac secret c \<longrightarrow> verifyToken mac secret now' (Signed c s) = Inl InvalidOrExpiredToken) \<and>
   (c_exp c = Some e \<and> e \<le> now' div 1000 \<longrightarrow>
      verifyToken mac secret now' (Signed c s) = Inl InvalidOrExpiredToken)"
  by (auto simp add: generateToken_Some verifyToken_def jwt_verify_def)

theorem verifyToken_generateToken_witness:
  "(1700000001000::nat) div 1000 < 1700000000000 div 1000 + 604800 \<and>
   (\<exists>tok decoded.
       generateToken sample_mac (js ''your-secret-key'') 604800 1700000000000 (Some sample_admin) = Inr tok \<and>
       verifyToken sample_mac (js ''your-secret-key'') 1700000001000 tok = Inr decoded \<and>
       p_id (c_payload decoded) = 1 \<and>
       p_username (c_payload decoded) = js ''root'' \<and>
       p_email (c_payload decoded) = js ''root@example.com'' \<and>
       p_role (c_payload decoded) = Some (js ''admin'')) \<and>
   js ''forged'' \<noteq> sample_mac (js ''your-secret-key'')
       \<lparr>c_payload = \<lparr>p_id = 1, p_username = js ''root'', p_email = js ''root@example.com'',
                      p_role = Some (js ''admin'')\<rparr>,
        c_iat = 0, c_exp = None, c_iss = None, c_aud = None\<rparr> \<and>
   verifyToken sample_mac (js ''your-secret-key'') 1700000001000
     (Signed \<lparr>c_payload = \<lparr>p_id = 1, p_username = js ''root'', p_email = js ''root@example.com'',
                            p_role = Some (js ''admin'')\<rparr>,
              c_iat = 0, c_exp = None, c_iss = None, c_aud = None\<rparr> (js ''forged''))
     = Inl InvalidOrExpiredToken"
  using verifyToken_generateToken [where now' = 1700000001000 and now = 1700000000000
          and lifetime = 604800 and mac = sample_mac and secret = "js ''your-secret-key''"
          and u = sample_admin and s = "js ''forged''" and e = 0
          and c = "\<lparr>c_payload = \<lparr>p_id = 1, p_username = js ''root'', p_email = js ''root@example.com'',
                      p_role = Some (js ''admin'')\<rparr>,
                   c_iat = 0, c_exp = None, c_iss = None, c_aud = None\<rparr>"]
  by (simp add: sample_admin_def sample_mac_def js_def)

section \<open>Properties of the lifecycle handlers\<close>



lemma schema_valid_lifecycle_update [simp]:
  "schema_valid (p\<lparr>status := s\<rparr>) = schema_valid p"
  "schema_valid (p\<lparr>submittedForApproval := b\<rparr>) = schema_valid p"
  "schema_valid (p\<lparr>submittedAt := d\<rparr>) = schema_valid p"
  "schema_valid (p\<lparr>isApproved := b\<rparr>) = schema_valid p"
  "schema_valid (p\<lparr>approvedBy := a\<rparr>) = schema_valid p"
  "schema_valid (p\<lparr>approvedAt := d\<rparr>) = schema_valid p"
  "schema_valid (p\<lparr>publishedAt := d\<rparr>) = schema_valid p"
  "schema_valid (p\<lparr>isPublished := b\<rparr>) = schema_valid p"
  by (simp_all add: schema_valid_def)


















end
